theory Spec2Isabelle
  imports Complex_Main "HOL-Library.Word" "HOL-Library.AList"
begin

section \<open>The booking ledger transaction of the migration 20250408\<close>

text \<open>
  This theory embeds the stored procedure \<^verbatim>\<open>create_booking_with_wallet_update\<close> of
  \<^verbatim>\<open>supabase/migrations/20250408_transaction_functions.sql\<close> and proves what the
  specification says of it. The procedure is PL/pgSQL; each statement of its body is
  one definition below, and the tables it touches are the state that is passed along.

  Conventions of the embedding:

  \<^item> \<^verbatim>\<open>DECIMAL\<close> values are rationals: subtraction and comparison are exact, and the
    special values \<^verbatim>\<open>NaN\<close> and \<^verbatim>\<open>Infinity\<close> are left out.
  \<^item> \<^verbatim>\<open>UUID\<close> is a 128-bit word, \<^verbatim>\<open>TEXT\<close> a string.
  \<^item> The arguments of the call and the stored columns are not \<^verbatim>\<open>NULL\<close>. SQL's
    \<^verbatim>\<open>NULL\<close> appears where the body itself produces and tests it: the result of
    \<^verbatim>\<open>category_breakdown->p_category\<close>, held in \<^verbatim>\<open>v_category_balance\<close>, is an
    \<open>option\<close> with \<open>None\<close> for \<^verbatim>\<open>NULL\<close>.
  \<^item> A table is the list of its rows, in the order a sequential scan meets them. The
    declarations of the three tables are not part of the migration, so a row has the
    columns the procedure names; constraints of the tables (foreign keys, checks) are
    not modelled.
\<close>

subsection \<open>Values\<close>

type_synonym uuid = "128 word"

type_synonym numeric = rat

text \<open>
  A \<^verbatim>\<open>TIMESTAMP WITH TIME ZONE\<close> is an instant: the microseconds since the epoch, in
  UTC, which is what PostgreSQL stores.
\<close>

type_synonym timestamptz = int

text \<open>
  The time zone of the session, as far as adding an interval needs it. \<open>utc_to_local\<close>
  gives the wall-clock reading of an instant in the zone (again as microseconds, of
  local civil time); \<open>local_to_utc\<close> is the instant the engine takes for a wall-clock
  reading, which also says what it does with a reading that the zone skips or has twice
  at a change of its offset.
\<close>

record timezone =
  utc_to_local :: "int \<Rightarrow> int"
  local_to_utc :: "int \<Rightarrow> int"

text \<open>
  \<^verbatim>\<open>t + INTERVAL 'n days'\<close>: the engine reads the instant on the session's wall clock,
  moves the calendar day by \<open>n\<close> and keeps the time of day, and takes the instant of
  that reading. A civil day has 86400000000 microseconds. (The engine's upper limit
  on timestamps, in year 294276, is left out.)
\<close>

definition plus_interval_days :: "timezone \<Rightarrow> timestamptz \<Rightarrow> int \<Rightarrow> timestamptz" where
  "plus_interval_days z t n = local_to_utc z (utc_to_local z t + n * 86400000000)"

text \<open>A zone at a fixed offset from UTC, and UTC itself.\<close>

definition fixed_zone :: "int \<Rightarrow> timezone" where
  "fixed_zone off = \<lparr>utc_to_local = (\<lambda>u. u + off), local_to_utc = (\<lambda>l. l - off)\<rparr>"

definition utc_zone :: timezone where
  "utc_zone = fixed_zone 0"

text \<open>
  A zone that changes its offset from \<open>off1\<close> to \<open>off2\<close> at the instant \<open>T\<close>. When the
  clock is put forward (\<open>off1 < off2\<close>) the readings from \<open>T + off1\<close> up to \<open>T + off2\<close>
  do not occur, and the engine takes them with the offset of before the change; when
  it is put back, the readings that occur twice are taken with the offset of after it.
\<close>

definition changing_zone :: "int \<Rightarrow> int \<Rightarrow> int \<Rightarrow> timezone" where
  "changing_zone T off1 off2 =
     \<lparr>utc_to_local = (\<lambda>u. if u < T then u + off1 else u + off2),
      local_to_utc = (\<lambda>l. if l < T + off2 then l - off1 else l - off2)\<rparr>"

text \<open>
  A \<^verbatim>\<open>jsonb\<close> document. An object is the list of its members. \<^verbatim>\<open>jsonb\<close> keeps one
  member per key; in a list that repeats a key, reading and writing both address the
  first member of that key, so the functions below need no such assumption.
\<close>

datatype jsonb =
    JNull
  | JBool bool
  | JNumber numeric
  | JString string
  | JArray "jsonb list"
  | JObject "(string \<times> jsonb) list"

subsection \<open>Errors\<close>

text \<open>
  The two \<^verbatim>\<open>RAISE EXCEPTION\<close> statements of the body carry a message only; they are
  named as the specification names them. \<open>InsufficientFunds\<close> holds the two values
  its message is formatted with: the category and the available balance. The other
  three are the errors of the built-in functions the body calls: the cast of a
  \<^verbatim>\<open>jsonb\<close> value that is not a number to \<^verbatim>\<open>DECIMAL\<close>, and \<^verbatim>\<open>jsonb_set\<close> on a target
  that is not an object.
\<close>

datatype error =
    WalletNotFound
  | InsufficientFunds string numeric
  | CannotCastJsonbToNumeric
  | CannotSetPathInScalar
  | PathElementInArray

subsection \<open>The built-in functions the body calls\<close>

text \<open>
  \<^verbatim>\<open>target -> key\<close> with a text key: the member of that name when the target is an
  object that has one, \<^verbatim>\<open>NULL\<close> otherwise.
\<close>

definition jsonb_object_field :: "jsonb \<Rightarrow> string \<Rightarrow> jsonb option" where
  "jsonb_object_field target k = (case target of JObject kvs \<Rightarrow> map_of kvs k | _ \<Rightarrow> None)"

text \<open>
  The cast \<^verbatim>\<open>(...)::DECIMAL\<close> of a \<^verbatim>\<open>jsonb\<close> value. It is strict, so \<^verbatim>\<open>NULL\<close> stays
  \<^verbatim>\<open>NULL\<close>; a JSON number gives its value; every other JSON value, the JSON
  \<^verbatim>\<open>null\<close> included, raises (PostgreSQL up to version 17).
\<close>

definition jsonb_numeric :: "jsonb option \<Rightarrow> error + numeric option" where
  "jsonb_numeric j =
     (case j of
        None \<Rightarrow> Inr None
      | Some (JNumber n) \<Rightarrow> Inr (Some n)
      | Some _ \<Rightarrow> Inl CannotCastJsonbToNumeric)"

definition to_jsonb :: "numeric \<Rightarrow> jsonb" where
  "to_jsonb n = JNumber n"

text \<open>
  \<^verbatim>\<open>jsonb_set(target, ARRAY[k], new_value)\<close>, the call with a path of one text
  element and \<^verbatim>\<open>create_missing\<close> at its default \<^verbatim>\<open>true\<close>. On an object the element
  is the member's key, taken as it is: the member of that key is replaced, or added when
  there is none. A scalar target raises. On an array the element would be read as an
  index; that case is not refined here and is reported as \<open>PathElementInArray\<close>
  (lemma \<open>jsonb_set_errors_unreachable\<close> shows when the procedure cannot reach it).
\<close>

definition jsonb_set :: "jsonb \<Rightarrow> string \<Rightarrow> jsonb \<Rightarrow> error + jsonb" where
  "jsonb_set target k new_value =
     (case target of
        JObject kvs \<Rightarrow> Inr (JObject (AList.update k new_value kvs))
      | JArray xs \<Rightarrow> Inl PathElementInArray
      | _ \<Rightarrow> Inl CannotSetPathInScalar)"

definition coalesce :: "'a option \<Rightarrow> 'a \<Rightarrow> 'a" where
  "coalesce v d = (case v of None \<Rightarrow> d | Some x \<Rightarrow> x)"

subsection \<open>Tables\<close>

record wallet =
  w_user_id :: uuid
  w_total_balance :: numeric
  w_category_breakdown :: jsonb

record service_booking =
  b_id :: uuid
  b_user_id :: uuid
  b_service_id :: uuid
  b_scheduled_at :: timestamptz
  b_total_price :: numeric
  b_ndis_covered_amount :: numeric
  b_gap_payment :: numeric
  b_notes :: string
  b_status :: string

record claim =
  c_user_id :: uuid
  c_booking_id :: uuid
  c_amount :: numeric
  c_status :: string
  c_category :: string
  c_expiry_date :: timestamptz

record db =
  wallets :: "wallet list"
  service_bookings :: "service_booking list"
  claims :: "claim list"

text \<open>
  What a call takes from its environment: the value of \<^verbatim>\<open>NOW()\<close>, the time zone of
  the session, and the identifier
  that the default of \<^verbatim>\<open>service_bookings.id\<close> gives to the inserted row (the
  \<^verbatim>\<open>RETURNING id\<close> of the insert reads it back).
\<close>

record env =
  env_now :: timestamptz
  env_timezone :: timezone
  env_booking_id :: uuid

subsection \<open>The statements of the body\<close>

text \<open>\<^verbatim>\<open>SELECT * INTO v_wallet_record FROM wallets WHERE user_id = p_user_id\<close>: the first
  row that matches; \<^verbatim>\<open>FOUND\<close> is false when there is none.\<close>

definition select_wallet :: "uuid \<Rightarrow> db \<Rightarrow> wallet option" where
  "select_wallet p_user_id d = find (\<lambda>w. w_user_id w = p_user_id) (wallets d)"

text \<open>\<^verbatim>\<open>INSERT INTO service_bookings (...) VALUES (...) RETURNING id INTO v_booking_id\<close>.\<close>

definition insert_booking ::
  "env \<Rightarrow> uuid \<Rightarrow> uuid \<Rightarrow> timestamptz \<Rightarrow> numeric \<Rightarrow> numeric \<Rightarrow> numeric \<Rightarrow> string \<Rightarrow> db \<Rightarrow> uuid \<times> db" where
  "insert_booking e p_user_id p_service_id p_scheduled_at p_total_price p_ndis_covered_amount
       p_gap_payment p_notes d =
     (env_booking_id e,
      d\<lparr>service_bookings := service_bookings d @
          [\<lparr>b_id = env_booking_id e,
            b_user_id = p_user_id,
            b_service_id = p_service_id,
            b_scheduled_at = p_scheduled_at,
            b_total_price = p_total_price,
            b_ndis_covered_amount = p_ndis_covered_amount,
            b_gap_payment = p_gap_payment,
            b_notes = p_notes,
            b_status = ''pending''\<rparr>]\<rparr>)"

text \<open>The \<^verbatim>\<open>SET\<close> clause of the \<^verbatim>\<open>UPDATE\<close>, on one row. Both right-hand sides read the
  row as it was; \<^verbatim>\<open>v_category_balance\<close> is the variable of the body, not a column.\<close>

definition update_wallet_row :: "numeric \<Rightarrow> string \<Rightarrow> numeric \<Rightarrow> wallet \<Rightarrow> error + wallet" where
  "update_wallet_row p_ndis_covered_amount p_category v_category_balance w =
     (case jsonb_set (w_category_breakdown w) p_category
             (to_jsonb (v_category_balance - p_ndis_covered_amount)) of
        Inl err \<Rightarrow> Inl err
      | Inr cb \<Rightarrow>
          Inr (w\<lparr>w_total_balance := w_total_balance w - p_ndis_covered_amount,
                 w_category_breakdown := cb\<rparr>))"

text \<open>\<^verbatim>\<open>UPDATE wallets SET ... WHERE user_id = p_user_id\<close>: every row that matches is
  rewritten, the others are kept; an error on any row fails the statement.\<close>

fun update_wallets :: "uuid \<Rightarrow> numeric \<Rightarrow> string \<Rightarrow> numeric \<Rightarrow> wallet list \<Rightarrow> error + wallet list" where
  "update_wallets p_user_id amt cat bal [] = Inr []"
| "update_wallets p_user_id amt cat bal (w # ws) =
     (case (if w_user_id w = p_user_id then update_wallet_row amt cat bal w else Inr w) of
        Inl err \<Rightarrow> Inl err
      | Inr w' \<Rightarrow>
          (case update_wallets p_user_id amt cat bal ws of
             Inl err \<Rightarrow> Inl err
           | Inr ws' \<Rightarrow> Inr (w' # ws')))"

text \<open>\<^verbatim>\<open>INSERT INTO claims (...) VALUES (...)\<close>.\<close>

definition insert_claim :: "env \<Rightarrow> uuid \<Rightarrow> uuid \<Rightarrow> numeric \<Rightarrow> string \<Rightarrow> db \<Rightarrow> db" where
  "insert_claim e p_user_id v_booking_id p_ndis_covered_amount p_category d =
     d\<lparr>claims := claims d @
         [\<lparr>c_user_id = p_user_id,
           c_booking_id = v_booking_id,
           c_amount = p_ndis_covered_amount,
           c_status = ''pending'',
           c_category = p_category,
           c_expiry_date = plus_interval_days (env_timezone e) (env_now e) 90\<rparr>]\<rparr>"

subsection \<open>The body and the call\<close>

text \<open>
  The body, statement by statement. It returns the outcome (\<open>Inl\<close> an error, \<open>Inr\<close> the
  returned identifier) together with the tables as the body left them when it stopped:
  on an error these are the tables at the statement that raised, before any rollback.
\<close>

definition create_booking_body ::
  "env \<Rightarrow> uuid \<Rightarrow> uuid \<Rightarrow> timestamptz \<Rightarrow> numeric \<Rightarrow> numeric \<Rightarrow> numeric \<Rightarrow> string \<Rightarrow> string \<Rightarrow> db
     \<Rightarrow> (error + uuid) \<times> db" where
  "create_booking_body e p_user_id p_service_id p_scheduled_at p_total_price
       p_ndis_covered_amount p_gap_payment p_notes p_category d =
     (case select_wallet p_user_id d of
        None \<Rightarrow> (Inl WalletNotFound, d)
      | Some v_wallet_record \<Rightarrow>
          (case jsonb_numeric
                  (jsonb_object_field (w_category_breakdown v_wallet_record) p_category) of
             Inl err \<Rightarrow> (Inl err, d)
           | Inr v_category_balance \<Rightarrow>
               (case v_category_balance of
                  None \<Rightarrow> (Inl (InsufficientFunds p_category (coalesce v_category_balance 0)), d)
                | Some bal \<Rightarrow>
                    if bal < p_ndis_covered_amount
                    then (Inl (InsufficientFunds p_category (coalesce v_category_balance 0)), d)
                    else
                      (case insert_booking e p_user_id p_service_id p_scheduled_at p_total_price
                              p_ndis_covered_amount p_gap_payment p_notes d of
                         (v_booking_id, d1) \<Rightarrow>
                           (case update_wallets p_user_id p_ndis_covered_amount p_category bal
                                   (wallets d1) of
                              Inl err \<Rightarrow> (Inl err, d1)
                            | Inr ws \<Rightarrow>
                                (Inr v_booking_id,
                                 insert_claim e p_user_id v_booking_id p_ndis_covered_amount
                                   p_category (d1\<lparr>wallets := ws\<rparr>)))))))"

text \<open>
  A call of the function. PostgreSQL runs a function inside the statement that calls
  it, so an error undoes whatever the body had written: the tables are those of before
  the call.
\<close>

definition create_booking_with_wallet_update ::
  "env \<Rightarrow> uuid \<Rightarrow> uuid \<Rightarrow> timestamptz \<Rightarrow> numeric \<Rightarrow> numeric \<Rightarrow> numeric \<Rightarrow> string \<Rightarrow> string \<Rightarrow> db
     \<Rightarrow> (error + uuid) \<times> db" where
  "create_booking_with_wallet_update e p_user_id p_service_id p_scheduled_at p_total_price
       p_ndis_covered_amount p_gap_payment p_notes p_category d =
     (case create_booking_body e p_user_id p_service_id p_scheduled_at p_total_price
             p_ndis_covered_amount p_gap_payment p_notes p_category d of
        (Inl err, d') \<Rightarrow> (Inl err, d)
      | (Inr v_booking_id, d') \<Rightarrow> (Inr v_booking_id, d'))"

subsection \<open>Notions of the specification\<close>

text \<open>The data model has one wallet per user: \<^verbatim>\<open>user_id\<close> is a key of \<^verbatim>\<open>wallets\<close>.\<close>

definition one_wallet_per_user :: "db \<Rightarrow> bool" where
  "one_wallet_per_user d = distinct (map w_user_id (wallets d))"

text \<open>The invariant of the data model: the breakdown is an object of numbers, one per
  category, and the total is their sum.\<close>

fun jsonb_number_value :: "jsonb \<Rightarrow> numeric" where
  "jsonb_number_value (JNumber n) = n"
| "jsonb_number_value _ = 0"

fun is_jsonb_number :: "jsonb \<Rightarrow> bool" where
  "is_jsonb_number (JNumber n) = True"
| "is_jsonb_number _ = False"

definition wallet_balanced :: "wallet \<Rightarrow> bool" where
  "wallet_balanced w =
     (case w_category_breakdown w of
        JObject kvs \<Rightarrow>
          distinct (map fst kvs) \<and> list_all (\<lambda>kv. is_jsonb_number (snd kv)) kvs \<and>
          w_total_balance w = sum_list (map (\<lambda>kv. jsonb_number_value (snd kv)) kvs)
      | _ \<Rightarrow> False)"

text \<open>What a user's wallet shows: its total, and the member of its breakdown under a
  category. Both read the row that \<open>select_wallet\<close> finds.\<close>

definition wallet_total :: "uuid \<Rightarrow> db \<Rightarrow> numeric option" where
  "wallet_total uid d = map_option w_total_balance (select_wallet uid d)"

definition wallet_category :: "uuid \<Rightarrow> string \<Rightarrow> db \<Rightarrow> jsonb option" where
  "wallet_category uid cat d =
     (case select_wallet uid d of
        None \<Rightarrow> None
      | Some w \<Rightarrow> jsonb_object_field (w_category_breakdown w) cat)"

definition user_wallet_balanced :: "uuid \<Rightarrow> db \<Rightarrow> bool" where
  "user_wallet_balanced uid d =
     (case select_wallet uid d of None \<Rightarrow> False | Some w \<Rightarrow> wallet_balanced w)"

subsection \<open>The scenario of the specification\<close>

text \<open>The wallet of the specification's concrete scenario (total 1000, 500 in each of
  \<^verbatim>\<open>core\<close> and \<^verbatim>\<open>capital\<close>), beside the wallet of another user.\<close>

definition scenario_wallet :: wallet where
  "scenario_wallet =
     \<lparr>w_user_id = 1, w_total_balance = 1000,
      w_category_breakdown = JObject [(''core'', JNumber 500), (''capital'', JNumber 500)]\<rparr>"

definition other_wallet :: wallet where
  "other_wallet =
     \<lparr>w_user_id = 2, w_total_balance = 40,
      w_category_breakdown = JObject [(''core'', JNumber 40)]\<rparr>"

definition scenario_db :: db where
  "scenario_db = \<lparr>wallets = [other_wallet, scenario_wallet], service_bookings = [], claims = []\<rparr>"

definition scenario_env :: env where
  "scenario_env =
     \<lparr>env_now = 1744106400000000, env_timezone = utc_zone, env_booking_id = 77\<rparr>"

text \<open>The environment of a second call: the table's default gives another identifier.\<close>

definition scenario_env2 :: env where
  "scenario_env2 =
     \<lparr>env_now = 1744106400000000, env_timezone = utc_zone, env_booking_id = 78\<rparr>"

definition scenario_at :: timestamptz where
  "scenario_at = 1745280000000000"

text \<open>A wallet whose second category has a name full of the characters that a JSON
  path or a quoted literal would have to escape.\<close>

definition quoted_category :: string where
  "quoted_category = ''core.{a,b}[0] $'' @ [CHR 0x22, CHR 0x5C, CHR 0x27]"

definition quoted_db :: db where
  "quoted_db =
     \<lparr>wallets =
        [\<lparr>w_user_id = 9, w_total_balance = 75,
          w_category_breakdown =
            JObject [(''core'', JNumber 25), (quoted_category, JNumber 50)]\<rparr>],
      service_bookings = [], claims = []\<rparr>"

text \<open>A wallet that is overdrawn in its one category.\<close>

definition overdrawn_db :: db where
  "overdrawn_db =
     \<lparr>wallets =
        [\<lparr>w_user_id = 4, w_total_balance = -5,
          w_category_breakdown = JObject [(''core'', JNumber (-5))]\<rparr>],
      service_bookings = [], claims = []\<rparr>"

section \<open>Properties\<close>

subsection \<open>The update of the wallets table\<close>

lemma update_wallets_no_match:
  "\<forall>w \<in> set ws. w_user_id w \<noteq> uid \<Longrightarrow> update_wallets uid amt cat bal ws = Inr ws"
  by (induction ws) simp_all

lemma update_wallet_row_user_id:
  "update_wallet_row amt cat bal w = Inr w' \<Longrightarrow> w_user_id w' = w_user_id w"
  by (auto simp: update_wallet_row_def split: sum.splits)

lemma update_wallet_row_object:
  "w_category_breakdown w = JObject kvs \<Longrightarrow>
   update_wallet_row amt cat bal w =
     Inr (w\<lparr>w_total_balance := w_total_balance w - amt,
            w_category_breakdown := JObject (AList.update cat (JNumber (bal - amt)) kvs)\<rparr>)"
  by (simp add: update_wallet_row_def jsonb_set_def to_jsonb_def)

text \<open>After a successful update the user's wallet is the selected row, rewritten.\<close>

lemma update_wallets_find_same:
  "update_wallets uid amt cat bal ws = Inr ws' \<Longrightarrow>
   find (\<lambda>w. w_user_id w = uid) ws = Some w \<Longrightarrow>
   \<exists>w'. update_wallet_row amt cat bal w = Inr w' \<and> find (\<lambda>w. w_user_id w = uid) ws' = Some w'"
proof (induction ws arbitrary: ws')
  case Nil
  then show ?case by simp
next
  case (Cons a ws)
  show ?case
  proof (cases "w_user_id a = uid")
    case True
    with Cons.prems show ?thesis
      by (auto split: sum.splits dest: update_wallet_row_user_id)
  next
    case False
    with Cons.prems Cons.IH show ?thesis
      by (auto split: sum.splits)
  qed
qed

text \<open>The wallets of the other users are as they were.\<close>

lemma update_wallets_find_other:
  "update_wallets uid amt cat bal ws = Inr ws' \<Longrightarrow> u \<noteq> uid \<Longrightarrow>
   find (\<lambda>w. w_user_id w = u) ws' = find (\<lambda>w. w_user_id w = u) ws"
proof (induction ws arbitrary: ws')
  case Nil
  then show ?case by simp
next
  case (Cons a ws)
  then show ?case
    by (auto split: sum.splits if_splits dest: update_wallet_row_user_id)
qed

text \<open>With one wallet per user, the update succeeds as soon as it succeeds on the
  selected row.\<close>

lemma update_wallets_unique:
  "distinct (map w_user_id ws) \<Longrightarrow>
   find (\<lambda>w. w_user_id w = uid) ws = Some w \<Longrightarrow>
   update_wallet_row amt cat bal w = Inr w' \<Longrightarrow>
   \<exists>ws'. update_wallets uid amt cat bal ws = Inr ws'"
proof (induction ws)
  case Nil
  then show ?case by simp
next
  case (Cons a ws)
  show ?case
  proof (cases "w_user_id a = uid")
    case True
    from Cons.prems(1) have "w_user_id a \<notin> w_user_id ` set ws" by simp
    with True have "\<forall>x \<in> set ws. w_user_id x \<noteq> uid" by blast
    then have "update_wallets uid amt cat bal ws = Inr ws"
      by (rule update_wallets_no_match)
    with True Cons.prems show ?thesis by simp
  next
    case False
    with Cons.prems Cons.IH show ?thesis by (auto split: sum.splits)
  qed
qed

text \<open>The update keeps every row's user.\<close>

lemma update_wallets_user_ids:
  "update_wallets uid amt cat bal ws = Inr ws' \<Longrightarrow> map w_user_id ws' = map w_user_id ws"
proof (induction ws arbitrary: ws')
  case Nil
  then show ?case by simp
next
  case (Cons a ws)
  then show ?case
    by (auto split: sum.splits if_splits dest: update_wallet_row_user_id)
qed

subsection \<open>The body, case by case\<close>

lemma object_field_someD:
  "jsonb_object_field j k = Some v \<Longrightarrow> \<exists>kvs. j = JObject kvs \<and> map_of kvs k = Some v"
  by (cases j) (simp_all add: jsonb_object_field_def)

lemma body_success:
  assumes "select_wallet uid d = Some w"
    and "jsonb_object_field (w_category_breakdown w) cat = Some (JNumber b)"
    and "amt \<le> b"
    and "update_wallets uid amt cat b (wallets d) = Inr ws"
  shows "create_booking_body e uid sid sched tp amt gp nt cat d =
           (Inr (env_booking_id e),
            \<lparr>wallets = ws,
             service_bookings = service_bookings d @
               [\<lparr>b_id = env_booking_id e, b_user_id = uid, b_service_id = sid,
                 b_scheduled_at = sched, b_total_price = tp, b_ndis_covered_amount = amt,
                 b_gap_payment = gp, b_notes = nt, b_status = ''pending''\<rparr>],
             claims = claims d @
               [\<lparr>c_user_id = uid, c_booking_id = env_booking_id e, c_amount = amt,
                 c_status = ''pending'', c_category = cat,
                 c_expiry_date = local_to_utc (env_timezone e)
                   (utc_to_local (env_timezone e) (env_now e) + 90 * 86400000000)\<rparr>]\<rparr>)"
  using assms
  by (simp add: create_booking_body_def jsonb_numeric_def insert_booking_def insert_claim_def
        plus_interval_days_def)

lemma body_success_inv:
  assumes "create_booking_body e uid sid sched tp amt gp nt cat d = (Inr bid, d')"
  shows "\<exists>w b ws. select_wallet uid d = Some w \<and>
           jsonb_object_field (w_category_breakdown w) cat = Some (JNumber b) \<and>
           amt \<le> b \<and> update_wallets uid amt cat b (wallets d) = Inr ws"
  using assms
  by (auto simp: create_booking_body_def jsonb_numeric_def insert_booking_def
           split: option.splits sum.splits jsonb.splits if_splits)

lemma call_eq_body_on_success:
  "create_booking_body e uid sid sched tp amt gp nt cat d = (Inr bid, d') \<Longrightarrow>
   create_booking_with_wallet_update e uid sid sched tp amt gp nt cat d = (Inr bid, d')"
  by (simp add: create_booking_with_wallet_update_def)

lemma call_success_inv:
  "create_booking_with_wallet_update e uid sid sched tp amt gp nt cat d = (Inr bid, d') \<Longrightarrow>
   create_booking_body e uid sid sched tp amt gp nt cat d = (Inr bid, d')"
  by (auto simp: create_booking_with_wallet_update_def split: prod.splits sum.splits)

subsection \<open>A call that succeeds\<close>

lemma wallet_category_someD:
  "wallet_category uid cat d = Some j \<Longrightarrow>
   \<exists>w. select_wallet uid d = Some w \<and> jsonb_object_field (w_category_breakdown w) cat = Some j"
  by (auto simp: wallet_category_def split: option.splits)

text \<open>With one wallet per user, a sufficient numeric balance is enough for success.\<close>

lemma call_succeeds:
  assumes "one_wallet_per_user d"
    and "wallet_category uid cat d = Some (JNumber b)"
    and "amt \<le> b"
  shows "\<exists>d'. create_booking_with_wallet_update e uid sid sched tp amt gp nt cat d =
               (Inr (env_booking_id e), d')"
proof -
  from assms(2) obtain w where w: "select_wallet uid d = Some w"
    and f: "jsonb_object_field (w_category_breakdown w) cat = Some (JNumber b)"
    by (blast dest: wallet_category_someD)
  from f obtain kvs where "w_category_breakdown w = JObject kvs"
    by (blast dest: object_field_someD)
  then have "\<exists>w'. update_wallet_row amt cat b w = Inr w'"
    by (simp add: update_wallet_row_object)
  with assms(1) w obtain ws where "update_wallets uid amt cat b (wallets d) = Inr ws"
    unfolding one_wallet_per_user_def select_wallet_def
    by (blast dest: update_wallets_unique)
  with w f assms(3) show ?thesis
    by (blast intro: call_eq_body_on_success body_success)
qed

text \<open>Everything a successful call has done.\<close>

lemma call_effects:
  assumes "create_booking_with_wallet_update e uid sid sched tp amt gp nt cat d = (Inr bid, d')"
  shows "\<exists>t b. wallet_total uid d = Some t \<and> wallet_category uid cat d = Some (JNumber b) \<and>
           amt \<le> b \<and> bid = env_booking_id e \<and>
           wallet_total uid d' = Some (t - amt) \<and>
           (\<forall>k. wallet_category uid k d' =
                 (if k = cat then Some (JNumber (b - amt)) else wallet_category uid k d)) \<and>
           (\<forall>u. u \<noteq> uid \<longrightarrow> select_wallet u d' = select_wallet u d) \<and>
           map w_user_id (wallets d') = map w_user_id (wallets d) \<and>
           service_bookings d' = service_bookings d @
               [\<lparr>b_id = env_booking_id e, b_user_id = uid, b_service_id = sid,
                 b_scheduled_at = sched, b_total_price = tp, b_ndis_covered_amount = amt,
                 b_gap_payment = gp, b_notes = nt, b_status = ''pending''\<rparr>] \<and>
           claims d' = claims d @
               [\<lparr>c_user_id = uid, c_booking_id = env_booking_id e, c_amount = amt,
                 c_status = ''pending'', c_category = cat,
                 c_expiry_date = local_to_utc (env_timezone e)
                   (utc_to_local (env_timezone e) (env_now e) + 90 * 86400000000)\<rparr>]"
proof -
  from assms have body: "create_booking_body e uid sid sched tp amt gp nt cat d = (Inr bid, d')"
    by (rule call_success_inv)
  then obtain w b ws where w: "select_wallet uid d = Some w"
    and f: "jsonb_object_field (w_category_breakdown w) cat = Some (JNumber b)"
    and le: "amt \<le> b"
    and upd: "update_wallets uid amt cat b (wallets d) = Inr ws"
    by (blast dest: body_success_inv)
  from body body_success [OF w f le upd, of e sid sched tp gp nt]
  have bid: "bid = env_booking_id e"
    and d': "d' = \<lparr>wallets = ws,
             service_bookings = service_bookings d @
               [\<lparr>b_id = env_booking_id e, b_user_id = uid, b_service_id = sid,
                 b_scheduled_at = sched, b_total_price = tp, b_ndis_covered_amount = amt,
                 b_gap_payment = gp, b_notes = nt, b_status = ''pending''\<rparr>],
             claims = claims d @
               [\<lparr>c_user_id = uid, c_booking_id = env_booking_id e, c_amount = amt,
                 c_status = ''pending'', c_category = cat,
                 c_expiry_date = local_to_utc (env_timezone e)
                   (utc_to_local (env_timezone e) (env_now e) + 90 * 86400000000)\<rparr>]\<rparr>"
    by auto
  from f obtain kvs where kvs: "w_category_breakdown w = JObject kvs"
    by (blast dest: object_field_someD)
  from upd w obtain w' where row: "update_wallet_row amt cat b w = Inr w'"
    and w': "find (\<lambda>x. w_user_id x = uid) ws = Some w'"
    unfolding select_wallet_def by (blast dest: update_wallets_find_same)
  from row kvs have w'_eq: "w' = w\<lparr>w_total_balance := w_total_balance w - amt,
      w_category_breakdown := JObject (AList.update cat (JNumber (b - amt)) kvs)\<rparr>"
    by (simp add: update_wallet_row_object)
  have sel: "select_wallet uid d' = Some w'"
    using w' d' by (simp add: select_wallet_def)
  have total: "wallet_total uid d = Some (w_total_balance w)"
    using w by (simp add: wallet_total_def)
  have total': "wallet_total uid d' = Some (w_total_balance w - amt)"
    using sel w'_eq by (simp add: wallet_total_def)
  have cat0: "wallet_category uid cat d = Some (JNumber b)"
    using w f by (simp add: wallet_category_def)
  have cats: "\<forall>k. wallet_category uid k d' =
                 (if k = cat then Some (JNumber (b - amt)) else wallet_category uid k d)"
    using sel w w'_eq kvs
    by (simp add: wallet_category_def jsonb_object_field_def update_conv')
  have others: "\<forall>u. u \<noteq> uid \<longrightarrow> select_wallet u d' = select_wallet u d"
    using upd d' by (simp add: select_wallet_def update_wallets_find_other)
  have ids: "map w_user_id (wallets d') = map w_user_id (wallets d)"
    using upd d' by (simp add: update_wallets_user_ids)
  from total total' cat0 cats others ids le bid d' show ?thesis
    by simp
qed

text \<open>The row of the user's wallet after a successful call.\<close>

lemma call_selected_wallet:
  assumes "create_booking_with_wallet_update e uid sid sched tp amt gp nt cat d = (Inr bid, d')"
  shows "\<exists>w b kvs. select_wallet uid d = Some w \<and> w_category_breakdown w = JObject kvs \<and>
           map_of kvs cat = Some (JNumber b) \<and>
           select_wallet uid d' =
             Some (w\<lparr>w_total_balance := w_total_balance w - amt,
                     w_category_breakdown := JObject (AList.update cat (JNumber (b - amt)) kvs)\<rparr>)"
proof -
  from assms have body: "create_booking_body e uid sid sched tp amt gp nt cat d = (Inr bid, d')"
    by (rule call_success_inv)
  then obtain w b ws where w: "select_wallet uid d = Some w"
    and f: "jsonb_object_field (w_category_breakdown w) cat = Some (JNumber b)"
    and le: "amt \<le> b"
    and upd: "update_wallets uid amt cat b (wallets d) = Inr ws"
    by (blast dest: body_success_inv)
  from body body_success [OF w f le upd, of e sid sched tp gp nt]
  have ws: "wallets d' = ws"
    by auto
  from f obtain kvs where kvs: "w_category_breakdown w = JObject kvs"
    and m: "map_of kvs cat = Some (JNumber b)"
    by (blast dest: object_field_someD)
  from upd w obtain w' where row: "update_wallet_row amt cat b w = Inr w'"
    and w': "find (\<lambda>x. w_user_id x = uid) ws = Some w'"
    unfolding select_wallet_def by (blast dest: update_wallets_find_same)
  from row kvs have "w' = w\<lparr>w_total_balance := w_total_balance w - amt,
      w_category_breakdown := JObject (AList.update cat (JNumber (b - amt)) kvs)\<rparr>"
    by (simp add: update_wallet_row_object)
  with w' ws w kvs m show ?thesis
    by (simp add: select_wallet_def)
qed

subsection \<open>Writing a number into an object\<close>

text \<open>What \<^verbatim>\<open>jsonb_set\<close> writes under a key is what \<^verbatim>\<open>->\<close> reads under that key, and
  the other members are not touched.\<close>

lemma jsonb_set_then_field:
  "jsonb_set target k v = Inr target' \<Longrightarrow>
   jsonb_object_field target' k' = (if k' = k then Some v else jsonb_object_field target k')"
  by (cases target) (auto simp: jsonb_set_def jsonb_object_field_def update_conv')

lemma sum_list_update_number:
  "map_of kvs cat = Some (JNumber b) \<Longrightarrow>
   sum_list (map (\<lambda>kv. jsonb_number_value (snd kv)) (AList.update cat (JNumber v) kvs)) =
     sum_list (map (\<lambda>kv. jsonb_number_value (snd kv)) kvs) - b + v"
  by (induction kvs) (auto split: if_splits)

lemma list_all_update_number:
  "list_all (\<lambda>kv. is_jsonb_number (snd kv)) kvs \<Longrightarrow>
   list_all (\<lambda>kv. is_jsonb_number (snd kv)) (AList.update cat (JNumber v) kvs)"
  by (induction kvs) auto

text \<open>The outcome, the wallets and the claims do not read \<^verbatim>\<open>p_total_price\<close> and
  \<^verbatim>\<open>p_gap_payment\<close>.\<close>

lemma call_ignores_price_and_gap:
  "fst (create_booking_with_wallet_update e uid sid sched tp amt gp nt cat d) =
     fst (create_booking_with_wallet_update e uid sid sched tp' amt gp' nt cat d) \<and>
   wallets (snd (create_booking_with_wallet_update e uid sid sched tp amt gp nt cat d)) =
     wallets (snd (create_booking_with_wallet_update e uid sid sched tp' amt gp' nt cat d)) \<and>
   claims (snd (create_booking_with_wallet_update e uid sid sched tp amt gp nt cat d)) =
     claims (snd (create_booking_with_wallet_update e uid sid sched tp' amt gp' nt cat d))"
  by (simp add: create_booking_with_wallet_update_def create_booking_body_def
        insert_booking_def insert_claim_def
        split: option.splits sum.splits)

subsection \<open>The errors of \<^verbatim>\<open>jsonb_set\<close> are out of reach\<close>

text \<open>The body stops at one of its first three exits unless the wallet holds the
  category with a sufficient number; and with one wallet per user the \<^verbatim>\<open>UPDATE\<close>
  then meets an object only.\<close>

lemma body_stops_early:
  assumes "\<not> (\<exists>b. wallet_category uid cat d = Some (JNumber b) \<and> amt \<le> b)"
  shows "\<exists>err. create_booking_body e uid sid sched tp amt gp nt cat d = (Inl err, d) \<and>
           err \<in> {WalletNotFound, CannotCastJsonbToNumeric} \<union> range (InsufficientFunds cat)"
  using assms
  by (auto simp: create_booking_body_def wallet_category_def jsonb_numeric_def
        split: option.splits jsonb.splits)

lemma jsonb_set_errors_unreachable:
  assumes "one_wallet_per_user d"
  shows "fst (create_booking_with_wallet_update e uid sid sched tp amt gp nt cat d) \<noteq>
           Inl PathElementInArray \<and>
         fst (create_booking_with_wallet_update e uid sid sched tp amt gp nt cat d) \<noteq>
           Inl CannotSetPathInScalar"
proof (cases "\<exists>b. wallet_category uid cat d = Some (JNumber b) \<and> amt \<le> b")
  case True
  then obtain b where "wallet_category uid cat d = Some (JNumber b)" "amt \<le> b"
    by blast
  from call_succeeds [OF assms this, of e sid sched tp gp nt] show ?thesis
    by auto
next
  case False
  from body_stops_early [OF False, of e sid sched tp gp nt] show ?thesis
    by (auto simp: create_booking_with_wallet_update_def)
qed

subsection \<open>Adding days to an instant\<close>

lemma plus_interval_days_fixed_zone:
  "plus_interval_days (fixed_zone off) t n = t + n * 86400000000"
  by (simp add: plus_interval_days_def fixed_zone_def)

text \<open>Day 100 at 02:30 on the wall clock does not occur in a zone that goes from 5 to 4
  hours behind UTC at 02:00 of that day; ninety days after day 10 at 02:30 is day 100
  at 03:30.\<close>

lemma plus_interval_days_in_gap:
  "utc_to_local (changing_zone (100 * 86400000000 + 7 * 3600000000) (- 5 * 3600000000)
       (- 4 * 3600000000)) (10 * 86400000000 + 7 * 3600000000 + 1800000000) =
     10 * 86400000000 + 2 * 3600000000 + 1800000000 \<and>
   utc_to_local (changing_zone (100 * 86400000000 + 7 * 3600000000) (- 5 * 3600000000)
       (- 4 * 3600000000))
     (plus_interval_days
        (changing_zone (100 * 86400000000 + 7 * 3600000000) (- 5 * 3600000000)
           (- 4 * 3600000000))
        (10 * 86400000000 + 7 * 3600000000 + 1800000000) 90) =
     100 * 86400000000 + 3 * 3600000000 + 1800000000"
  by (simp add: plus_interval_days_def changing_zone_def)

section \<open>The claims of the specification\<close>

lemmas scenario_defs =
  scenario_db_def scenario_wallet_def other_wallet_def scenario_env_def scenario_at_def
  utc_zone_def fixed_zone_def

lemmas call_defs =
  create_booking_with_wallet_update_def create_booking_body_def select_wallet_def
  jsonb_object_field_def jsonb_numeric_def coalesce_def insert_booking_def insert_claim_def
  update_wallet_row_def jsonb_set_def to_jsonb_def plus_interval_days_def

lemmas view_defs = wallet_total_def wallet_category_def one_wallet_per_user_def

text \<open>
  Claim C1. When the user's wallet holds the requested category with balance \<open>b\<close> and
  \<open>b \<ge> ndisCoveredAmount\<close>, the call succeeds, the wallet's total is lowered by
  \<open>ndisCoveredAmount\<close>, the category's balance becomes \<open>b - ndisCoveredAmount\<close>, and
  every other category of the breakdown is as before. The wallet is the user's one
  wallet, as the data model has it.
\<close>

theorem sufficient_balance_debits_category:
  assumes "one_wallet_per_user d"
    and "wallet_total uid d = Some t"
    and "wallet_category uid cat d = Some (JNumber b)"
    and "amt \<le> b"
  shows "fst (create_booking_with_wallet_update e uid sid sched tp amt gp nt cat d) =
           Inr (env_booking_id e) \<and>
         wallet_total uid (snd (create_booking_with_wallet_update e uid sid sched tp amt gp nt cat d)) =
           Some (t - amt) \<and>
         wallet_category uid cat
             (snd (create_booking_with_wallet_update e uid sid sched tp amt gp nt cat d)) =
           Some (JNumber (b - amt)) \<and>
         (\<forall>k. k \<noteq> cat \<longrightarrow>
            wallet_category uid k
                (snd (create_booking_with_wallet_update e uid sid sched tp amt gp nt cat d)) =
              wallet_category uid k d)"
proof -
  from assms(1,3,4) obtain d' where
    call: "create_booking_with_wallet_update e uid sid sched tp amt gp nt cat d =
             (Inr (env_booking_id e), d')"
    by (blast dest: call_succeeds)
  from call_effects [OF call] assms(2,3) call show ?thesis
    by auto
qed

theorem sufficient_balance_debits_category_witness:
  "one_wallet_per_user scenario_db \<and>
   wallet_total 1 scenario_db = Some 1000 \<and>
   wallet_category 1 ''core'' scenario_db = Some (JNumber 500) \<and>
   (200::rat) \<le> 500 \<and>
   fst (create_booking_with_wallet_update scenario_env 1 5 scenario_at 250 200 50
          ''weekly visit'' ''core'' scenario_db) = Inr 77 \<and>
   wallet_total 1 (snd (create_booking_with_wallet_update scenario_env 1 5 scenario_at 250 200 50
          ''weekly visit'' ''core'' scenario_db)) = Some 800 \<and>
   wallet_category 1 ''core'' (snd (create_booking_with_wallet_update scenario_env 1 5
          scenario_at 250 200 50 ''weekly visit'' ''core'' scenario_db)) = Some (JNumber 300) \<and>
   wallet_category 1 ''capital'' (snd (create_booking_with_wallet_update scenario_env 1 5
          scenario_at 250 200 50 ''weekly visit'' ''core'' scenario_db)) = Some (JNumber 500)"
proof -
  have h1: "one_wallet_per_user scenario_db"
    by (simp add: view_defs scenario_defs)
  have h2: "wallet_total 1 scenario_db = Some 1000"
    by (simp add: view_defs select_wallet_def scenario_defs)
  have h3: "wallet_category 1 ''core'' scenario_db = Some (JNumber 500)"
    by (simp add: view_defs select_wallet_def jsonb_object_field_def scenario_defs)
  have h3': "wallet_category 1 ''capital'' scenario_db = Some (JNumber 500)"
    by (simp add: view_defs select_wallet_def jsonb_object_field_def scenario_defs)
  have h4: "(200::rat) \<le> 500" by simp
  from sufficient_balance_debits_category
         [OF h1 h2 h3 h4, of scenario_env 5 scenario_at 250 50 "''weekly visit''"]
  show ?thesis using h1 h2 h3 h3' by (simp add: scenario_env_def)
qed

text \<open>
  Claim C3. For a user with no row in \<^verbatim>\<open>wallets\<close> the call fails with
  \<open>WalletNotFound\<close>, and the tables are those of before the call: no booking and no
  claim is created. The body itself has written nothing when it raises.
\<close>

theorem wallet_not_found:
  assumes "p_user_id \<notin> set (map w_user_id (wallets d))"
  shows "create_booking_with_wallet_update e p_user_id sid sched tp amt gp nt cat d =
           (Inl WalletNotFound, d) \<and>
         create_booking_body e p_user_id sid sched tp amt gp nt cat d = (Inl WalletNotFound, d)"
proof -
  from assms have "select_wallet p_user_id d = None"
    by (auto simp: select_wallet_def find_None_iff)
  then show ?thesis
    by (simp add: create_booking_with_wallet_update_def create_booking_body_def)
qed

theorem wallet_not_found_witness:
  "(3::uuid) \<notin> set (map w_user_id (wallets scenario_db)) \<and>
   create_booking_with_wallet_update scenario_env 3 5 scenario_at 250 200 50 ''weekly visit''
       ''core'' scenario_db = (Inl WalletNotFound, scenario_db) \<and>
   service_bookings (snd (create_booking_with_wallet_update scenario_env 3 5 scenario_at 250 200 50
       ''weekly visit'' ''core'' scenario_db)) = [] \<and>
   claims (snd (create_booking_with_wallet_update scenario_env 3 5 scenario_at 250 200 50
       ''weekly visit'' ''core'' scenario_db)) = []"
proof -
  have h: "(3::uuid) \<notin> set (map w_user_id (wallets scenario_db))"
    by (simp add: scenario_defs)
  from wallet_not_found [OF h, of scenario_env 5 scenario_at 250 200 50 "''weekly visit''" "''core''"]
  show ?thesis using h by (simp add: scenario_db_def)
qed

text \<open>
  Claim C2. When the balance \<open>b\<close> of the requested category is below
  \<open>ndisCoveredAmount\<close>, or the wallet's breakdown has no such category, the call fails
  with \<open>InsufficientFunds\<close>, which reports the category and the available balance
  (\<open>b\<close>, or 0 for the missing category), and the tables are those of before the call:
  the wallet's total and breakdown, the bookings and the claims. The body itself has
  written nothing when it raises.
\<close>

theorem insufficient_funds:
  assumes "select_wallet uid d = Some w"
    and "jsonb_object_field (w_category_breakdown w) cat = None \<and> avail = 0 \<or>
         jsonb_object_field (w_category_breakdown w) cat = Some (JNumber avail) \<and> avail < amt"
  shows "create_booking_with_wallet_update e uid sid sched tp amt gp nt cat d =
           (Inl (InsufficientFunds cat avail), d) \<and>
         create_booking_body e uid sid sched tp amt gp nt cat d =
           (Inl (InsufficientFunds cat avail), d)"
  using assms
  by (auto simp: create_booking_with_wallet_update_def create_booking_body_def
        jsonb_numeric_def coalesce_def)

theorem insufficient_funds_witness:
  "select_wallet 1 scenario_db = Some scenario_wallet \<and>
   jsonb_object_field (w_category_breakdown scenario_wallet) ''capital'' = Some (JNumber 500) \<and>
   (500::rat) < 600 \<and>
   jsonb_object_field (w_category_breakdown scenario_wallet) ''transport'' = None \<and>
   create_booking_with_wallet_update scenario_env 1 5 scenario_at 650 600 50 ''weekly visit''
       ''capital'' scenario_db = (Inl (InsufficientFunds ''capital'' 500), scenario_db) \<and>
   create_booking_with_wallet_update scenario_env 1 5 scenario_at 650 600 50 ''weekly visit''
       ''transport'' scenario_db = (Inl (InsufficientFunds ''transport'' 0), scenario_db)"
proof -
  have h1: "select_wallet 1 scenario_db = Some scenario_wallet"
    by (simp add: select_wallet_def scenario_defs)
  have h2: "jsonb_object_field (w_category_breakdown scenario_wallet) ''capital'' =
              Some (JNumber 500)"
    by (simp add: jsonb_object_field_def scenario_defs)
  have h3: "(500::rat) < 600" by simp
  have h4: "jsonb_object_field (w_category_breakdown scenario_wallet) ''transport'' = None"
    by (simp add: jsonb_object_field_def scenario_defs)
  from h2 h3 have below:
    "jsonb_object_field (w_category_breakdown scenario_wallet) ''capital'' = None \<and> (500::rat) = 0 \<or>
     jsonb_object_field (w_category_breakdown scenario_wallet) ''capital'' = Some (JNumber 500) \<and>
       (500::rat) < 600"
    by simp
  from h4 have absent:
    "jsonb_object_field (w_category_breakdown scenario_wallet) ''transport'' = None \<and> (0::rat) = 0 \<or>
     jsonb_object_field (w_category_breakdown scenario_wallet) ''transport'' = Some (JNumber 0) \<and>
       (0::rat) < 600"
    by simp
  from insufficient_funds [OF h1 below, of scenario_env 5 scenario_at 650 50 "''weekly visit''"]
       insufficient_funds [OF h1 absent, of scenario_env 5 scenario_at 650 50 "''weekly visit''"]
  show ?thesis using h1 h2 h3 h4 by simp
qed

text \<open>
  Claim C4. A call that succeeds has added one row to \<^verbatim>\<open>service_bookings\<close>, with
  status \<^verbatim>\<open>pending\<close>, and one row to \<^verbatim>\<open>claims\<close>, which refers to that booking and
  has the amount \<open>ndisCoveredAmount\<close>, the status \<^verbatim>\<open>pending\<close>, the requested category
  and as expiry the time of the call plus 90 days; it returns the booking's identifier.
  The expiry is the instant whose wall-clock reading in the session's zone is that of
  \<^verbatim>\<open>NOW()\<close> moved by 90 civil days; in a zone of fixed offset, UTC among them, it is
  \<^verbatim>\<open>NOW()\<close> plus 90 times 86400000000 microseconds.
\<close>

theorem success_inserts_booking_and_claim:
  assumes "create_booking_with_wallet_update e uid sid sched tp amt gp nt cat d = (Inr bid, d')"
  shows "bid = env_booking_id e \<and>
         service_bookings d' = service_bookings d @
           [\<lparr>b_id = bid, b_user_id = uid, b_service_id = sid, b_scheduled_at = sched,
             b_total_price = tp, b_ndis_covered_amount = amt, b_gap_payment = gp,
             b_notes = nt, b_status = ''pending''\<rparr>] \<and>
         claims d' = claims d @
           [\<lparr>c_user_id = uid, c_booking_id = bid, c_amount = amt, c_status = ''pending'',
             c_category = cat,
             c_expiry_date =
               local_to_utc (env_timezone e)
                 (utc_to_local (env_timezone e) (env_now e) + 90 * 86400000000)\<rparr>] \<and>
         (env_timezone e = fixed_zone off \<longrightarrow>
            claims d' = claims d @
              [\<lparr>c_user_id = uid, c_booking_id = bid, c_amount = amt, c_status = ''pending'',
                c_category = cat, c_expiry_date = env_now e + 90 * 86400000000\<rparr>])"
  using call_effects [OF assms] by (auto simp: fixed_zone_def)

theorem success_inserts_booking_and_claim_witness:
  "create_booking_with_wallet_update scenario_env 1 5 scenario_at 250 200 50 ''weekly visit''
     ''core'' scenario_db =
   (Inr 77,
    \<lparr>wallets = [other_wallet,
        \<lparr>w_user_id = 1, w_total_balance = 800,
         w_category_breakdown = JObject [(''core'', JNumber 300), (''capital'', JNumber 500)]\<rparr>],
     service_bookings =
       [\<lparr>b_id = 77, b_user_id = 1, b_service_id = 5, b_scheduled_at = scenario_at,
         b_total_price = 250, b_ndis_covered_amount = 200, b_gap_payment = 50,
         b_notes = ''weekly visit'', b_status = ''pending''\<rparr>],
     claims =
       [\<lparr>c_user_id = 1, c_booking_id = 77, c_amount = 200, c_status = ''pending'',
         c_category = ''core'', c_expiry_date = 1751882400000000\<rparr>]\<rparr>) \<and>
   env_timezone scenario_env = fixed_zone 0 \<and>
   env_now scenario_env + 90 * 86400000000 = 1751882400000000 \<and>
   length (service_bookings (snd (create_booking_with_wallet_update scenario_env 1 5 scenario_at
     250 200 50 ''weekly visit'' ''core'' scenario_db))) = length (service_bookings scenario_db) + 1 \<and>
   length (claims (snd (create_booking_with_wallet_update scenario_env 1 5 scenario_at
     250 200 50 ''weekly visit'' ''core'' scenario_db))) = length (claims scenario_db) + 1"
proof -
  have call: "create_booking_with_wallet_update scenario_env 1 5 scenario_at 250 200 50
      ''weekly visit'' ''core'' scenario_db =
   (Inr 77,
    \<lparr>wallets = [other_wallet,
        \<lparr>w_user_id = 1, w_total_balance = 800,
         w_category_breakdown = JObject [(''core'', JNumber 300), (''capital'', JNumber 500)]\<rparr>],
     service_bookings =
       [\<lparr>b_id = 77, b_user_id = 1, b_service_id = 5, b_scheduled_at = scenario_at,
         b_total_price = 250, b_ndis_covered_amount = 200, b_gap_payment = 50,
         b_notes = ''weekly visit'', b_status = ''pending''\<rparr>],
     claims =
       [\<lparr>c_user_id = 1, c_booking_id = 77, c_amount = 200, c_status = ''pending'',
         c_category = ''core'', c_expiry_date = 1751882400000000\<rparr>]\<rparr>)"
    by (simp add: call_defs scenario_defs)
  have z: "env_timezone scenario_env = fixed_zone 0"
    by (simp add: scenario_env_def utc_zone_def)
  have n: "env_now scenario_env + 90 * 86400000000 = 1751882400000000"
    by (simp add: scenario_env_def)
  from success_inserts_booking_and_claim [OF call, of 0] call z n show ?thesis
    by simp
qed

text \<open>
  Claim C5. If the total of the user's wallet equals the sum of the balances of its
  breakdown before a call that succeeds, it does so after it: the total and the balance
  of the one category are both lowered by \<open>ndisCoveredAmount\<close>.
\<close>

theorem success_keeps_total_equal_to_sum:
  assumes "user_wallet_balanced uid d"
    and "create_booking_with_wallet_update e uid sid sched tp amt gp nt cat d = (Inr bid, d')"
  shows "user_wallet_balanced uid d' \<and>
         (\<exists>t b. wallet_total uid d = Some t \<and> wallet_total uid d' = Some (t - amt) \<and>
                wallet_category uid cat d = Some (JNumber b) \<and>
                wallet_category uid cat d' = Some (JNumber (b - amt)))"
proof -
  from call_selected_wallet [OF assms(2)] obtain w b kvs where
    w: "select_wallet uid d = Some w" and kvs: "w_category_breakdown w = JObject kvs"
    and m: "map_of kvs cat = Some (JNumber b)"
    and w': "select_wallet uid d' =
             Some (w\<lparr>w_total_balance := w_total_balance w - amt,
                     w_category_breakdown := JObject (AList.update cat (JNumber (b - amt)) kvs)\<rparr>)"
    by blast
  from assms(1) w kvs have bal: "distinct (map fst kvs)"
    "list_all (\<lambda>kv. is_jsonb_number (snd kv)) kvs"
    "w_total_balance w = sum_list (map (\<lambda>kv. jsonb_number_value (snd kv)) kvs)"
    by (simp_all add: user_wallet_balanced_def wallet_balanced_def)
  have "user_wallet_balanced uid d'"
    using w' bal m
    by (simp add: user_wallet_balanced_def wallet_balanced_def distinct_update
          list_all_update_number sum_list_update_number)
  moreover from call_effects [OF assms(2)]
  have "\<exists>t b. wallet_total uid d = Some t \<and> wallet_total uid d' = Some (t - amt) \<and>
                wallet_category uid cat d = Some (JNumber b) \<and>
                wallet_category uid cat d' = Some (JNumber (b - amt))"
    by auto
  ultimately show ?thesis by simp
qed

theorem success_keeps_total_equal_to_sum_witness:
  "user_wallet_balanced 1 scenario_db \<and>
   fst (create_booking_with_wallet_update scenario_env 1 5 scenario_at 250 200 50
          ''weekly visit'' ''core'' scenario_db) = Inr 77 \<and>
   user_wallet_balanced 1 (snd (create_booking_with_wallet_update scenario_env 1 5 scenario_at
          250 200 50 ''weekly visit'' ''core'' scenario_db)) \<and>
   wallet_total 1 (snd (create_booking_with_wallet_update scenario_env 1 5 scenario_at
          250 200 50 ''weekly visit'' ''core'' scenario_db)) = Some 800"
proof -
  have h1: "user_wallet_balanced 1 scenario_db"
    by (simp add: user_wallet_balanced_def wallet_balanced_def select_wallet_def scenario_defs)
  obtain d' where call: "create_booking_with_wallet_update scenario_env 1 5 scenario_at 250 200 50
      ''weekly visit'' ''core'' scenario_db = (Inr 77, d')"
    by (simp add: call_defs scenario_defs)
  have t: "wallet_total 1 scenario_db = Some 1000"
    by (simp add: view_defs select_wallet_def scenario_defs)
  from success_keeps_total_equal_to_sum [OF h1 call] h1 call t show ?thesis
    by auto
qed

text \<open>
  Claim C6. For every category name, whatever characters it is made of, the key that
  the check reads (\<^verbatim>\<open>category_breakdown->p_category\<close>) is the key that the update
  writes (\<^verbatim>\<open>jsonb_set\<close> with the path \<^verbatim>\<open>ARRAY[p_category]\<close>): after a call that
  succeeds, the member under the requested name holds the checked balance less
  \<open>ndisCoveredAmount\<close>, and the member under every other name is as before.
\<close>

theorem lookup_and_update_same_key:
  assumes "create_booking_with_wallet_update e uid sid sched tp amt gp nt cat d = (Inr bid, d')"
  shows "\<exists>b. wallet_category uid cat d = Some (JNumber b) \<and>
             wallet_category uid cat d' = Some (to_jsonb (b - amt)) \<and>
             (\<forall>k. k \<noteq> cat \<longrightarrow> wallet_category uid k d' = wallet_category uid k d)"
  using call_effects [OF assms] by (auto simp: to_jsonb_def)

theorem lookup_and_update_same_key_witness:
  "fst (create_booking_with_wallet_update scenario_env 9 5 scenario_at 30 20 10 ''visit''
          quoted_category quoted_db) = Inr 77 \<and>
   wallet_category 9 quoted_category quoted_db = Some (JNumber 50) \<and>
   wallet_category 9 quoted_category
       (snd (create_booking_with_wallet_update scenario_env 9 5 scenario_at 30 20 10 ''visit''
          quoted_category quoted_db)) = Some (JNumber 30) \<and>
   wallet_category 9 ''core''
       (snd (create_booking_with_wallet_update scenario_env 9 5 scenario_at 30 20 10 ''visit''
          quoted_category quoted_db)) = Some (JNumber 25)"
proof -
  obtain d' where call: "create_booking_with_wallet_update scenario_env 9 5 scenario_at 30 20 10
      ''visit'' quoted_category quoted_db = (Inr 77, d')"
    by (simp add: call_defs scenario_defs quoted_db_def quoted_category_def)
  have c: "wallet_category 9 quoted_category quoted_db = Some (JNumber 50)"
    by (simp add: view_defs select_wallet_def jsonb_object_field_def quoted_db_def
          quoted_category_def)
  have c': "wallet_category 9 ''core'' quoted_db = Some (JNumber 25)"
    by (simp add: view_defs select_wallet_def jsonb_object_field_def quoted_db_def)
  have ne: "''core'' \<noteq> quoted_category"
    by (simp add: quoted_category_def)
  from lookup_and_update_same_key [OF call] call c c' ne show ?thesis
    by (auto simp: to_jsonb_def)
qed

text \<open>
  Claim C7. The procedure is not idempotent. When the category's balance is enough for
  two calls, two calls one after the other with the same arguments both succeed: they
  leave two booking rows and two claim rows, the total and the category's balance are
  lowered by twice \<open>ndisCoveredAmount\<close>, and nothing in the arguments stops the second
  call. The two booking rows carry the identifiers that the table's default gave them,
  and the two claims refer to them; the rows differ as soon as these identifiers do.
\<close>

theorem two_identical_calls_double_effect:
  assumes "one_wallet_per_user d"
    and "wallet_total uid d = Some t"
    and "wallet_category uid cat d = Some (JNumber b)"
    and "amt \<le> b" and "amt \<le> b - amt"
    and "create_booking_with_wallet_update e1 uid sid sched tp amt gp nt cat d = (r1, d1)"
    and "create_booking_with_wallet_update e2 uid sid sched tp amt gp nt cat d1 = (r2, d2)"
  shows "r1 = Inr (env_booking_id e1) \<and> r2 = Inr (env_booking_id e2) \<and>
         service_bookings d2 = service_bookings d @
           [\<lparr>b_id = env_booking_id e1, b_user_id = uid, b_service_id = sid,
             b_scheduled_at = sched, b_total_price = tp, b_ndis_covered_amount = amt,
             b_gap_payment = gp, b_notes = nt, b_status = ''pending''\<rparr>,
            \<lparr>b_id = env_booking_id e2, b_user_id = uid, b_service_id = sid,
             b_scheduled_at = sched, b_total_price = tp, b_ndis_covered_amount = amt,
             b_gap_payment = gp, b_notes = nt, b_status = ''pending''\<rparr>] \<and>
         claims d2 = claims d @
           [\<lparr>c_user_id = uid, c_booking_id = env_booking_id e1, c_amount = amt,
             c_status = ''pending'', c_category = cat,
             c_expiry_date = local_to_utc (env_timezone e1)
                   (utc_to_local (env_timezone e1) (env_now e1) + 90 * 86400000000)\<rparr>,
            \<lparr>c_user_id = uid, c_booking_id = env_booking_id e2, c_amount = amt,
             c_status = ''pending'', c_category = cat,
             c_expiry_date = local_to_utc (env_timezone e2)
                   (utc_to_local (env_timezone e2) (env_now e2) + 90 * 86400000000)\<rparr>] \<and>
         wallet_total uid d2 = Some (t - 2 * amt) \<and>
         wallet_category uid cat d2 = Some (JNumber (b - 2 * amt)) \<and>
         (env_booking_id e1 \<noteq> env_booking_id e2 \<longrightarrow>
            distinct (drop (length (service_bookings d)) (service_bookings d2)) \<and>
            distinct (drop (length (claims d)) (claims d2)))"
proof -
  from call_succeeds [OF assms(1,3,4), of e1 sid sched tp gp nt] assms(6)
  have first: "create_booking_with_wallet_update e1 uid sid sched tp amt gp nt cat d =
                 (Inr (env_booking_id e1), d1)"
    by auto
  note eff1 = call_effects [OF first]
  from eff1 assms(2,3) have t1: "wallet_total uid d1 = Some (t - amt)"
    and c1: "wallet_category uid cat d1 = Some (JNumber (b - amt))"
    by auto
  from eff1 assms(1) have one1: "one_wallet_per_user d1"
    by (auto simp: one_wallet_per_user_def)
  from call_succeeds [OF one1 c1 assms(5), of e2 sid sched tp gp nt] assms(7)
  have second: "create_booking_with_wallet_update e2 uid sid sched tp amt gp nt cat d1 =
                  (Inr (env_booking_id e2), d2)"
    by auto
  note eff2 = call_effects [OF second]
  from eff2 t1 c1 have t2: "wallet_total uid d2 = Some (t - amt - amt)"
    and c2: "wallet_category uid cat d2 = Some (JNumber (b - amt - amt))"
    by auto
  have two: "t - amt - amt = t - 2 * amt" "b - amt - amt = b - 2 * amt"
    by simp_all
  from eff1 eff2 have rows:
    "service_bookings d2 = service_bookings d @
           [\<lparr>b_id = env_booking_id e1, b_user_id = uid, b_service_id = sid,
             b_scheduled_at = sched, b_total_price = tp, b_ndis_covered_amount = amt,
             b_gap_payment = gp, b_notes = nt, b_status = ''pending''\<rparr>,
            \<lparr>b_id = env_booking_id e2, b_user_id = uid, b_service_id = sid,
             b_scheduled_at = sched, b_total_price = tp, b_ndis_covered_amount = amt,
             b_gap_payment = gp, b_notes = nt, b_status = ''pending''\<rparr>]"
    "claims d2 = claims d @
           [\<lparr>c_user_id = uid, c_booking_id = env_booking_id e1, c_amount = amt,
             c_status = ''pending'', c_category = cat,
             c_expiry_date = local_to_utc (env_timezone e1)
                   (utc_to_local (env_timezone e1) (env_now e1) + 90 * 86400000000)\<rparr>,
            \<lparr>c_user_id = uid, c_booking_id = env_booking_id e2, c_amount = amt,
             c_status = ''pending'', c_category = cat,
             c_expiry_date = local_to_utc (env_timezone e2)
                   (utc_to_local (env_timezone e2) (env_now e2) + 90 * 86400000000)\<rparr>]"
    by auto
  from first second assms(6,7) have res: "r1 = Inr (env_booking_id e1)" "r2 = Inr (env_booking_id e2)"
    by auto
  from res rows t2 c2 two show ?thesis
    by simp
qed

theorem two_identical_calls_double_effect_witness:
  "one_wallet_per_user scenario_db \<and>
   wallet_total 1 scenario_db = Some 1000 \<and>
   wallet_category 1 ''core'' scenario_db = Some (JNumber 500) \<and>
   (200::rat) \<le> 500 \<and> (200::rat) \<le> 500 - 200 \<and>
   fst (create_booking_with_wallet_update scenario_env 1 5 scenario_at 250 200 50
          ''weekly visit'' ''core'' scenario_db) = Inr 77 \<and>
   fst (create_booking_with_wallet_update scenario_env2 1 5 scenario_at 250 200 50
          ''weekly visit'' ''core''
          (snd (create_booking_with_wallet_update scenario_env 1 5 scenario_at 250 200 50
             ''weekly visit'' ''core'' scenario_db))) = Inr 78 \<and>
   wallet_total 1
     (snd (create_booking_with_wallet_update scenario_env2 1 5 scenario_at 250 200 50
          ''weekly visit'' ''core''
          (snd (create_booking_with_wallet_update scenario_env 1 5 scenario_at 250 200 50
             ''weekly visit'' ''core'' scenario_db)))) = Some 600 \<and>
   wallet_category 1 ''core''
     (snd (create_booking_with_wallet_update scenario_env2 1 5 scenario_at 250 200 50
          ''weekly visit'' ''core''
          (snd (create_booking_with_wallet_update scenario_env 1 5 scenario_at 250 200 50
             ''weekly visit'' ''core'' scenario_db)))) = Some (JNumber 100) \<and>
   length (service_bookings
     (snd (create_booking_with_wallet_update scenario_env2 1 5 scenario_at 250 200 50
          ''weekly visit'' ''core''
          (snd (create_booking_with_wallet_update scenario_env 1 5 scenario_at 250 200 50
             ''weekly visit'' ''core'' scenario_db))))) = 2 \<and>
   length (claims
     (snd (create_booking_with_wallet_update scenario_env2 1 5 scenario_at 250 200 50
          ''weekly visit'' ''core''
          (snd (create_booking_with_wallet_update scenario_env 1 5 scenario_at 250 200 50
             ''weekly visit'' ''core'' scenario_db))))) = 2"
proof -
  have h1: "one_wallet_per_user scenario_db"
    by (simp add: view_defs scenario_defs)
  have h2: "wallet_total 1 scenario_db = Some 1000"
    by (simp add: view_defs select_wallet_def scenario_defs)
  have h3: "wallet_category 1 ''core'' scenario_db = Some (JNumber 500)"
    by (simp add: view_defs select_wallet_def jsonb_object_field_def scenario_defs)
  have h4: "(200::rat) \<le> 500" by simp
  have h5: "(200::rat) \<le> 500 - 200" by simp
  obtain r1 d1 where first: "create_booking_with_wallet_update scenario_env 1 5 scenario_at
      250 200 50 ''weekly visit'' ''core'' scenario_db = (r1, d1)"
    by (rule prod.exhaust)
  obtain r2 d2 where second: "create_booking_with_wallet_update scenario_env2 1 5 scenario_at
      250 200 50 ''weekly visit'' ''core'' d1 = (r2, d2)"
    by (rule prod.exhaust)
  have e: "env_booking_id scenario_env = 77" "env_booking_id scenario_env2 = 78"
    by (simp_all add: scenario_env_def scenario_env2_def)
  have s: "service_bookings scenario_db = []" "claims scenario_db = []"
    by (simp_all add: scenario_db_def)
  from two_identical_calls_double_effect [OF h1 h2 h3 h4 h5 first second]
  show ?thesis using h1 h2 h3 first second e s by simp
qed

text \<open>
  Claim C9, amended. The sign of \<open>ndisCoveredAmount\<close> is not checked: when the wallet
  holds the requested category with balance \<open>b\<close>, \<open>ndisCoveredAmount \<le> 0\<close> and
  \<open>b \<ge> ndisCoveredAmount\<close> (as for every \<open>b \<ge> 0\<close>), the call succeeds, the total and
  the category's balance grow by \<open>\<bar>ndisCoveredAmount\<bar>\<close>, and the claim that is filed
  has a non-positive amount.
\<close>

theorem nonpositive_amount_credits_wallet:
  assumes "one_wallet_per_user d"
    and "wallet_total uid d = Some t"
    and "wallet_category uid cat d = Some (JNumber b)"
    and "amt \<le> 0" and "amt \<le> b"
  shows "fst (create_booking_with_wallet_update e uid sid sched tp amt gp nt cat d) =
           Inr (env_booking_id e) \<and>
         wallet_total uid (snd (create_booking_with_wallet_update e uid sid sched tp amt gp nt cat d)) =
           Some (t + \<bar>amt\<bar>) \<and>
         wallet_category uid cat
             (snd (create_booking_with_wallet_update e uid sid sched tp amt gp nt cat d)) =
           Some (JNumber (b + \<bar>amt\<bar>)) \<and>
         claims (snd (create_booking_with_wallet_update e uid sid sched tp amt gp nt cat d)) =
           claims d @
             [\<lparr>c_user_id = uid, c_booking_id = env_booking_id e, c_amount = amt,
               c_status = ''pending'', c_category = cat,
               c_expiry_date = local_to_utc (env_timezone e)
                   (utc_to_local (env_timezone e) (env_now e) + 90 * 86400000000)\<rparr>] \<and>
         c_amount (last (claims
             (snd (create_booking_with_wallet_update e uid sid sched tp amt gp nt cat d)))) \<le> 0"
proof -
  from assms(1,3,5) obtain d' where
    call: "create_booking_with_wallet_update e uid sid sched tp amt gp nt cat d =
             (Inr (env_booking_id e), d')"
    by (blast dest: call_succeeds)
  from assms(4) have abs: "\<bar>amt\<bar> = - amt"
    by simp
  from call_effects [OF call] assms(2,3,4) call abs show ?thesis
    by auto
qed

theorem nonpositive_amount_credits_wallet_witness:
  "one_wallet_per_user scenario_db \<and>
   wallet_total 1 scenario_db = Some 1000 \<and>
   wallet_category 1 ''core'' scenario_db = Some (JNumber 500) \<and>
   (- 200::rat) \<le> 0 \<and> (- 200::rat) \<le> 500 \<and>
   fst (create_booking_with_wallet_update scenario_env 1 5 scenario_at 250 (- 200) 50
          ''weekly visit'' ''core'' scenario_db) = Inr 77 \<and>
   wallet_total 1 (snd (create_booking_with_wallet_update scenario_env 1 5 scenario_at 250
          (- 200) 50 ''weekly visit'' ''core'' scenario_db)) = Some 1200 \<and>
   wallet_category 1 ''core'' (snd (create_booking_with_wallet_update scenario_env 1 5
          scenario_at 250 (- 200) 50 ''weekly visit'' ''core'' scenario_db)) = Some (JNumber 700)"
proof -
  have h1: "one_wallet_per_user scenario_db"
    by (simp add: view_defs scenario_defs)
  have h2: "wallet_total 1 scenario_db = Some 1000"
    by (simp add: view_defs select_wallet_def scenario_defs)
  have h3: "wallet_category 1 ''core'' scenario_db = Some (JNumber 500)"
    by (simp add: view_defs select_wallet_def jsonb_object_field_def scenario_defs)
  have h4: "(- 200::rat) \<le> 0" by simp
  have h5: "(- 200::rat) \<le> 500" by simp
  from nonpositive_amount_credits_wallet
         [OF h1 h2 h3 h4 h5, of scenario_env 5 scenario_at 250 50 "''weekly visit''"]
  show ?thesis using h1 h2 h3 by (simp add: scenario_env_def)
qed

text \<open>
  The claim as first stated has no condition on \<open>b\<close>. An overdrawn category, with
  \<open>b < ndisCoveredAmount \<le> 0\<close>, does not pass the check of the body: the call fails
  with \<open>InsufficientFunds\<close>.
\<close>

theorem nonpositive_amount_counterexample:
  "one_wallet_per_user overdrawn_db \<and>
   wallet_total 4 overdrawn_db = Some (- 5) \<and>
   wallet_category 4 ''core'' overdrawn_db = Some (JNumber (- 5)) \<and>
   (- 1::rat) \<le> 0 \<and>
   create_booking_with_wallet_update scenario_env 4 5 scenario_at 0 (- 1) 0 ''refund'' ''core''
     overdrawn_db = (Inl (InsufficientFunds ''core'' (- 5)), overdrawn_db)"
  by (simp add: call_defs view_defs overdrawn_db_def)

text \<open>
  Claim C10. The debit depends on \<open>ndisCoveredAmount\<close> only. Whatever \<open>totalPrice\<close> and
  \<open>gapPayment\<close> are, related to \<open>ndisCoveredAmount\<close> or not, the total and the
  category's balance are lowered by exactly \<open>ndisCoveredAmount\<close> and the other
  categories are as before. The outcome, the wallets and the claims are the same as
  with any other \<open>totalPrice\<close> and \<open>gapPayment\<close>, and the claim that is filed holds
  neither of them: the two values are recorded on the booking row and nowhere else.
\<close>

theorem debit_depends_only_on_covered_amount:
  assumes "one_wallet_per_user d"
    and "wallet_total uid d = Some t"
    and "wallet_category uid cat d = Some (JNumber b)"
    and "amt \<le> b"
  shows "fst (create_booking_with_wallet_update e uid sid sched tp amt gp nt cat d) =
           Inr (env_booking_id e) \<and>
         wallet_total uid (snd (create_booking_with_wallet_update e uid sid sched tp amt gp nt cat d)) =
           Some (t - amt) \<and>
         wallet_category uid cat
             (snd (create_booking_with_wallet_update e uid sid sched tp amt gp nt cat d)) =
           Some (JNumber (b - amt)) \<and>
         (\<forall>k. k \<noteq> cat \<longrightarrow>
            wallet_category uid k
                (snd (create_booking_with_wallet_update e uid sid sched tp amt gp nt cat d)) =
              wallet_category uid k d) \<and>
         fst (create_booking_with_wallet_update e uid sid sched tp amt gp nt cat d) =
           fst (create_booking_with_wallet_update e uid sid sched tp' amt gp' nt cat d) \<and>
         wallets (snd (create_booking_with_wallet_update e uid sid sched tp amt gp nt cat d)) =
           wallets (snd (create_booking_with_wallet_update e uid sid sched tp' amt gp' nt cat d)) \<and>
         claims (snd (create_booking_with_wallet_update e uid sid sched tp amt gp nt cat d)) =
           claims (snd (create_booking_with_wallet_update e uid sid sched tp' amt gp' nt cat d)) \<and>
         claims (snd (create_booking_with_wallet_update e uid sid sched tp amt gp nt cat d)) =
           claims d @
             [\<lparr>c_user_id = uid, c_booking_id = env_booking_id e, c_amount = amt,
               c_status = ''pending'', c_category = cat,
               c_expiry_date =
                 local_to_utc (env_timezone e)
                   (utc_to_local (env_timezone e) (env_now e) + 90 * 86400000000)\<rparr>] \<and>
         service_bookings
             (snd (create_booking_with_wallet_update e uid sid sched tp amt gp nt cat d)) =
           service_bookings d @
             [\<lparr>b_id = env_booking_id e, b_user_id = uid, b_service_id = sid,
               b_scheduled_at = sched, b_total_price = tp, b_ndis_covered_amount = amt,
               b_gap_payment = gp, b_notes = nt, b_status = ''pending''\<rparr>]"
proof -
  from assms(1,3,4) obtain d' where
    call: "create_booking_with_wallet_update e uid sid sched tp amt gp nt cat d =
             (Inr (env_booking_id e), d')"
    by (blast dest: call_succeeds)
  note same = call_ignores_price_and_gap [of e uid sid sched tp amt gp nt cat d tp' gp']
  from same have s1:
    "fst (create_booking_with_wallet_update e uid sid sched tp amt gp nt cat d) =
       fst (create_booking_with_wallet_update e uid sid sched tp' amt gp' nt cat d)"
    by (rule conjunct1)
  from same have s2:
    "wallets (snd (create_booking_with_wallet_update e uid sid sched tp amt gp nt cat d)) =
       wallets (snd (create_booking_with_wallet_update e uid sid sched tp' amt gp' nt cat d))"
    by blast
  from same have s3:
    "claims (snd (create_booking_with_wallet_update e uid sid sched tp amt gp nt cat d)) =
       claims (snd (create_booking_with_wallet_update e uid sid sched tp' amt gp' nt cat d))"
    by blast
  from call_effects [OF call] assms(2,3) have eff:
    "wallet_total uid d' = Some (t - amt)"
    "wallet_category uid cat d' = Some (JNumber (b - amt))"
    "\<forall>k. k \<noteq> cat \<longrightarrow> wallet_category uid k d' = wallet_category uid k d"
    "claims d' = claims d @
             [\<lparr>c_user_id = uid, c_booking_id = env_booking_id e, c_amount = amt,
               c_status = ''pending'', c_category = cat,
               c_expiry_date =
                 local_to_utc (env_timezone e)
                   (utc_to_local (env_timezone e) (env_now e) + 90 * 86400000000)\<rparr>]"
    "service_bookings d' = service_bookings d @
             [\<lparr>b_id = env_booking_id e, b_user_id = uid, b_service_id = sid,
               b_scheduled_at = sched, b_total_price = tp, b_ndis_covered_amount = amt,
               b_gap_payment = gp, b_notes = nt, b_status = ''pending''\<rparr>]"
    by auto
  have f: "fst (create_booking_with_wallet_update e uid sid sched tp amt gp nt cat d) =
             Inr (env_booking_id e)"
    and d': "snd (create_booking_with_wallet_update e uid sid sched tp amt gp nt cat d) = d'"
    using call by simp_all
  from s1 s2 s3 show ?thesis
    unfolding d' using f eff s1 [symmetric] by (simp del: One_nat_def)
qed

theorem debit_depends_only_on_covered_amount_witness:
  "one_wallet_per_user scenario_db \<and>
   wallet_total 1 scenario_db = Some 1000 \<and>
   wallet_category 1 ''core'' scenario_db = Some (JNumber 500) \<and>
   (200::rat) \<le> 500 \<and> (999::rat) \<noteq> 200 + 1 \<and>
   wallet_total 1 (snd (create_booking_with_wallet_update scenario_env 1 5 scenario_at 999 200 1
          ''weekly visit'' ''core'' scenario_db)) = Some 800 \<and>
   wallet_category 1 ''core'' (snd (create_booking_with_wallet_update scenario_env 1 5
          scenario_at 999 200 1 ''weekly visit'' ''core'' scenario_db)) = Some (JNumber 300) \<and>
   wallet_category 1 ''capital'' (snd (create_booking_with_wallet_update scenario_env 1 5
          scenario_at 999 200 1 ''weekly visit'' ''core'' scenario_db)) = Some (JNumber 500) \<and>
   wallets (snd (create_booking_with_wallet_update scenario_env 1 5 scenario_at 999 200 1
          ''weekly visit'' ''core'' scenario_db)) =
     wallets (snd (create_booking_with_wallet_update scenario_env 1 5 scenario_at 250 200 50
          ''weekly visit'' ''core'' scenario_db)) \<and>
   claims (snd (create_booking_with_wallet_update scenario_env 1 5 scenario_at 999 200 1
          ''weekly visit'' ''core'' scenario_db)) =
     claims (snd (create_booking_with_wallet_update scenario_env 1 5 scenario_at 250 200 50
          ''weekly visit'' ''core'' scenario_db)) \<and>
   map c_amount (claims (snd (create_booking_with_wallet_update scenario_env 1 5
          scenario_at 999 200 1 ''weekly visit'' ''core'' scenario_db))) = [200] \<and>
   map b_total_price (service_bookings (snd (create_booking_with_wallet_update scenario_env 1 5
          scenario_at 999 200 1 ''weekly visit'' ''core'' scenario_db))) = [999] \<and>
   map b_gap_payment (service_bookings (snd (create_booking_with_wallet_update scenario_env 1 5
          scenario_at 999 200 1 ''weekly visit'' ''core'' scenario_db))) = [1]"
proof -
  have h1: "one_wallet_per_user scenario_db"
    by (simp add: view_defs scenario_defs)
  have h2: "wallet_total 1 scenario_db = Some 1000"
    by (simp add: view_defs select_wallet_def scenario_defs)
  have h3: "wallet_category 1 ''core'' scenario_db = Some (JNumber 500)"
    by (simp add: view_defs select_wallet_def jsonb_object_field_def scenario_defs)
  have h3': "wallet_category 1 ''capital'' scenario_db = Some (JNumber 500)"
    by (simp add: view_defs select_wallet_def jsonb_object_field_def scenario_defs)
  have h4: "(200::rat) \<le> 500" by simp
  have s: "service_bookings scenario_db = []" "claims scenario_db = []"
    by (simp_all add: scenario_db_def)
  have a: "create_booking_with_wallet_update scenario_env 1 5 scenario_at 999 200 1
      ''weekly visit'' ''core'' scenario_db =
   (Inr 77,
    \<lparr>wallets = [other_wallet,
        \<lparr>w_user_id = 1, w_total_balance = 800,
         w_category_breakdown = JObject [(''core'', JNumber 300), (''capital'', JNumber 500)]\<rparr>],
     service_bookings =
       [\<lparr>b_id = 77, b_user_id = 1, b_service_id = 5, b_scheduled_at = scenario_at,
         b_total_price = 999, b_ndis_covered_amount = 200, b_gap_payment = 1,
         b_notes = ''weekly visit'', b_status = ''pending''\<rparr>],
     claims =
       [\<lparr>c_user_id = 1, c_booking_id = 77, c_amount = 200, c_status = ''pending'',
         c_category = ''core'', c_expiry_date = 1751882400000000\<rparr>]\<rparr>)"
    by (simp add: call_defs scenario_defs)
  have b: "create_booking_with_wallet_update scenario_env 1 5 scenario_at 250 200 50
      ''weekly visit'' ''core'' scenario_db =
   (Inr 77,
    \<lparr>wallets = [other_wallet,
        \<lparr>w_user_id = 1, w_total_balance = 800,
         w_category_breakdown = JObject [(''core'', JNumber 300), (''capital'', JNumber 500)]\<rparr>],
     service_bookings =
       [\<lparr>b_id = 77, b_user_id = 1, b_service_id = 5, b_scheduled_at = scenario_at,
         b_total_price = 250, b_ndis_covered_amount = 200, b_gap_payment = 50,
         b_notes = ''weekly visit'', b_status = ''pending''\<rparr>],
     claims =
       [\<lparr>c_user_id = 1, c_booking_id = 77, c_amount = 200, c_status = ''pending'',
         c_category = ''core'', c_expiry_date = 1751882400000000\<rparr>]\<rparr>)"
    by (simp add: call_defs scenario_defs)
  from debit_depends_only_on_covered_amount
         [OF h1 h2 h3 h4, of scenario_env 5 scenario_at 999 1 "''weekly visit''" 250 50]
  show ?thesis using h1 h2 h3 h3' unfolding a b
    by (simp add: view_defs select_wallet_def jsonb_object_field_def other_wallet_def)
qed

end
